theory Spec2Isabelle
  imports Complex_Main "HOL-Library.Word"
begin

section \<open>JavaScript values and strings\<close>

text \<open>
  The gateway of \<^verbatim>\<open>src/index.js\<close> is embedded as pure functions. A JavaScript string is a
  \<^typ>\<open>string\<close>: a list of code units below 256 (the Latin-1 range); code units above that
  range are outside the model. A value read from a request body is a \<open>jsval\<close>.
\<close>

datatype jsval =
    JUndefined
  | JNull
  | JBool bool
  | JNumber real
  | JString string
  | JArray "jsval list"
  | JObject "(string \<times> jsval) list"

text \<open>The \<^verbatim>\<open>typeof\<close> operator.\<close>

fun typeof :: "jsval \<Rightarrow> string" where
  "typeof JUndefined = ''undefined''"
| "typeof JNull = ''object''"
| "typeof (JBool b) = ''boolean''"
| "typeof (JNumber x) = ''number''"
| "typeof (JString s) = ''string''"
| "typeof (JArray xs) = ''object''"
| "typeof (JObject kvs) = ''object''"

text \<open>
  White space and line terminators removed by \<^verbatim>\<open>String.prototype.trim\<close>, as far as they lie
  in the modelled range: TAB, LF, VT, FF, CR, SPACE and NO-BREAK SPACE.
\<close>

definition isWhiteSpace :: "char \<Rightarrow> bool" where
  "isWhiteSpace c = ((of_char c :: nat) \<in> {9, 10, 11, 12, 13, 32, 160})"

definition trim :: "string \<Rightarrow> string" where
  "trim s = rev (dropWhile isWhiteSpace (rev (dropWhile isWhiteSpace s)))"

text \<open>
  \<^verbatim>\<open>String.prototype.toLowerCase\<close> on the modelled range: A to Z, and the Latin-1 capitals
  U+00C0 to U+00DE without the multiplication sign U+00D7, move up by 32.
\<close>

definition lowerChar :: "char \<Rightarrow> char" where
  "lowerChar c =
     (let n = (of_char c :: nat)
      in if (65 \<le> n \<and> n \<le> 90) \<or> (192 \<le> n \<and> n \<le> 222 \<and> n \<noteq> 215)
         then char_of (n + 32) else c)"

definition toLowerCase :: "string \<Rightarrow> string" where
  "toLowerCase s = map lowerChar s"

text \<open>\<^verbatim>\<open>Array.prototype.join\<close> on an array of strings.\<close>

fun join :: "string \<Rightarrow> string list \<Rightarrow> string" where
  "join sep [] = []"
| "join sep [x] = x"
| "join sep (x # y # ys) = x @ sep @ join sep (y # ys)"

text \<open>Decimal rendering of a non-negative integer inside a template literal.\<close>

fun numberToString :: "nat \<Rightarrow> string" where
  "numberToString n =
     (if n < 10 then [char_of (48 + n)]
      else numberToString (n div 10) @ [char_of (48 + n mod 10)])"

declare numberToString.simps [simp del]

text \<open>The nullish coalescing operator \<^verbatim>\<open>a ?? b\<close>.\<close>

fun nullish :: "jsval \<Rightarrow> jsval \<Rightarrow> jsval" where
  "nullish JUndefined d = d"
| "nullish JNull d = d"
| "nullish v d = v"

text \<open>\<^verbatim>\<open>Buffer.prototype.toString('base64')\<close>: standard alphabet, padded with \<open>=\<close>.\<close>

type_synonym byte = "8 word"

definition base64Alphabet :: string where
  "base64Alphabet = ''ABCDEFGHIJKLMNOPQRSTUVWXYZabcdefghijklmnopqrstuvwxyz0123456789+/''"

definition base64Char :: "nat \<Rightarrow> char" where
  "base64Char n = base64Alphabet ! (n mod 64)"

fun toBase64 :: "byte list \<Rightarrow> string" where
  "toBase64 [] = []"
| "toBase64 [a] =
     (let n = unat a * 65536
      in [base64Char (n div 262144), base64Char (n div 4096), CHR ''='', CHR ''=''])"
| "toBase64 [a, b] =
     (let n = unat a * 65536 + unat b * 256
      in [base64Char (n div 262144), base64Char (n div 4096), base64Char (n div 64), CHR ''=''])"
| "toBase64 (a # b # c # rest) =
     (let n = unat a * 65536 + unat b * 256 + unat c
      in [base64Char (n div 262144), base64Char (n div 4096), base64Char (n div 64), base64Char n]
         @ toBase64 rest)"

section \<open>Configuration constants\<close>

definition MAX_FILE_SIZE_MB :: nat where
  "MAX_FILE_SIZE_MB = 5"

definition MAX_FILE_SIZE_BYTES :: nat where
  "MAX_FILE_SIZE_BYTES = MAX_FILE_SIZE_MB * 1024 * 1024"

definition IMAGE_MIME_TYPES :: "string list" where
  "IMAGE_MIME_TYPES = [''image/png'', ''image/jpeg'', ''image/jpg'', ''image/webp'']"

definition DOCUMENT_MIME_TYPES :: "string list" where
  "DOCUMENT_MIME_TYPES =
     [''application/pdf'',
      ''application/msword'',
      ''application/vnd.openxmlformats-officedocument.wordprocessingml.document'',
      ''text/plain'']"

definition AUDIO_MIME_TYPES :: "string list" where
  "AUDIO_MIME_TYPES =
     [''audio/mpeg'', ''audio/mp3'', ''audio/wav'', ''audio/x-wav'', ''audio/webm'', ''audio/ogg'']"

definition GEMINI_MODEL :: string where
  "GEMINI_MODEL = ''gemini-2.5-flash''"

section \<open>Requests, responses and the collaborator\<close>

text \<open>
  One file part of a multipart body, which is also the object the upload library stores in
  \<^verbatim>\<open>req.file\<close>. The declared content type may be undefined.
\<close>

record file_part =
  fieldname :: string
  mimetype :: "string option"
  buffer :: "byte list"

text \<open>
  A request: the parsed body (undefined, or an object of fields), the file parts of the
  multipart body in arrival order, and \<^verbatim>\<open>req.file\<close>, which only the upload middleware sets.
\<close>

record request =
  body :: "(string \<rightharpoonup> jsval) option"
  parts :: "file_part list"
  reqFile :: "file_part option"

record response =
  status :: nat
  json :: "(string \<times> string) list"

text \<open>The payload of \<^verbatim>\<open>ai.models.generateContent\<close>.\<close>

datatype part = TextPart jsval | InlineData string "string option"

datatype contents = Bare jsval | Parts "part list"

record generate_request =
  model :: string
  contents :: contents

text \<open>
  The external generation service: on a payload it either raises an error with a message
  (\<open>Inl\<close>) or answers with a text (\<open>Inr\<close>).
\<close>

type_synonym collaborator = "generate_request \<Rightarrow> string + string"

text \<open>
  The effects of serving a request: the responses written, the payloads sent to the
  collaborator, and the lines given to \<^verbatim>\<open>console.error\<close> (label and error message).
\<close>

record world =
  sent :: "response list"
  calls :: "generate_request list"
  logged :: "(string \<times> string) list"

definition start :: world where
  "start = \<lparr>sent = [], calls = [], logged = []\<rparr>"

definition res_json :: "nat \<Rightarrow> (string \<times> string) list \<Rightarrow> world \<Rightarrow> world" where
  "res_json code obj w = w\<lparr>sent := sent w @ [\<lparr>status = code, json = obj\<rparr>]\<rparr>"

definition console_error :: "string \<Rightarrow> string \<Rightarrow> world \<Rightarrow> world" where
  "console_error label msg w = w\<lparr>logged := logged w @ [(label, msg)]\<rparr>"

definition generateContent ::
  "collaborator \<Rightarrow> generate_request \<Rightarrow> world \<Rightarrow> (string + string) \<times> world" where
  "generateContent ai r w = (ai r, w\<lparr>calls := calls w @ [r]\<rparr>)"

section \<open>The prompt check\<close>

text \<open>
  \<^verbatim>\<open>const isPromptValid = (prompt) => typeof prompt === 'string' && prompt.trim().length > 0\<close>
\<close>

definition isPromptValid :: "jsval \<Rightarrow> bool" where
  "isPromptValid prompt =
     (typeof prompt = ''string'' \<and>
      (case prompt of JString s \<Rightarrow> 0 < length (trim s) | _ \<Rightarrow> False))"

text \<open>\<^verbatim>\<open>const { prompt } = req.body ?? {}\<close>\<close>

definition promptOf :: "request \<Rightarrow> jsval" where
  "promptOf req =
     (case body req of
        None \<Rightarrow> JUndefined
      | Some obj \<Rightarrow> (case obj ''prompt'' of None \<Rightarrow> JUndefined | Some v \<Rightarrow> v))"

section \<open>The upload gate\<close>

text \<open>
  The file filter given to the upload library by \<^verbatim>\<open>createUploadMiddleware\<close>. Its callback
  receives either an error (\<open>Inl\<close> with the message) or the decision to keep the file.
\<close>

definition fileFilter :: "string list \<Rightarrow> file_part \<Rightarrow> string + bool" where
  "fileFilter allowedMimeTypes f =
     (let mt = (case mimetype f of None \<Rightarrow> [] | Some m \<Rightarrow> toLowerCase m)
      in if mt \<notin> set allowedMimeTypes
         then Inl (''Invalid file type. Allowed types: '' @ join '', '' allowedMimeTypes)
         else Inr True)"

text \<open>
  The errors the uploader hands to its callback: an error of the library's own class, with a
  code and a message, or a plain error with a message (the one raised by the file filter).
\<close>

datatype upload_error = MulterError string string | PlainError string

fun isMulterError :: "upload_error \<Rightarrow> bool" where
  "isMulterError (MulterError c m) = True"
| "isMulterError (PlainError m) = False"

fun errorCode :: "upload_error \<Rightarrow> string option" where
  "errorCode (MulterError c m) = Some c"
| "errorCode (PlainError m) = None"

fun errorMessage :: "upload_error \<Rightarrow> string" where
  "errorMessage (MulterError c m) = m"
| "errorMessage (PlainError m) = m"

text \<open>
  The upload library is a dependency whose code is not in the repository; what follows is a
  model of \<^verbatim>\<open>multer({storage, limits, fileFilter}).single(fieldName)\<close> as the library
  documents it. File parts are taken in arrival order and the first error ends the upload:
  \<^item> a part under another field name, or a second part under the expected one, is an
    unexpected file;
  \<^item> then the file filter is asked, on the part's header, before any byte of the file is read;
  \<^item> then the file is read into memory, and the size ceiling is noticed while reading.

  Whether a file of exactly \<^verbatim>\<open>limits.fileSize\<close> bytes already trips the ceiling is decided
  inside the library's multipart parser and differs between its generations; the repository
  pins none, so the rule is a parameter of the model.
\<close>

datatype size_rule = TripsAbove | TripsAt

definition limitHit :: "size_rule \<Rightarrow> nat \<Rightarrow> nat \<Rightarrow> bool" where
  "limitHit rule fileSize n = (case rule of TripsAbove \<Rightarrow> fileSize < n | TripsAt \<Rightarrow> fileSize \<le> n)"

fun ingest ::
  "size_rule \<Rightarrow> string \<Rightarrow> nat \<Rightarrow> (file_part \<Rightarrow> string + bool) \<Rightarrow> nat \<Rightarrow> file_part option \<Rightarrow>
   file_part list \<Rightarrow> upload_error + file_part option" where
  "ingest rule fieldName fileSize flt filesLeft stored [] = Inr stored"
| "ingest rule fieldName fileSize flt filesLeft stored (f # fs) =
     (if fieldname f \<noteq> fieldName \<or> filesLeft = 0
      then Inl (MulterError ''LIMIT_UNEXPECTED_FILE'' ''Unexpected field'')
      else case flt f of
             Inl msg \<Rightarrow> Inl (PlainError msg)
           | Inr keep \<Rightarrow>
               if \<not> keep then ingest rule fieldName fileSize flt (filesLeft - 1) stored fs
               else if limitHit rule fileSize (length (buffer f))
               then Inl (MulterError ''LIMIT_FILE_SIZE'' ''File too large'')
               else ingest rule fieldName fileSize flt (filesLeft - 1)
                      (case stored of None \<Rightarrow> Some f | Some g \<Rightarrow> Some g) fs)"

definition uploader ::
  "size_rule \<Rightarrow> string \<Rightarrow> string list \<Rightarrow> request \<Rightarrow> upload_error + file_part option" where
  "uploader rule fieldName allowedMimeTypes req =
     ingest rule fieldName MAX_FILE_SIZE_BYTES (fileFilter allowedMimeTypes) 1 None (parts req)"

text \<open>
  The middleware returned by \<^verbatim>\<open>createUploadMiddleware\<close>: on an upload error it answers 400
  and does not call \<^verbatim>\<open>next\<close> (\<open>None\<close>); otherwise it passes the request on, with
  \<^verbatim>\<open>req.file\<close> set by the uploader.
\<close>

definition createUploadMiddleware ::
  "size_rule \<Rightarrow> string \<Rightarrow> string list \<Rightarrow> request \<Rightarrow> world \<Rightarrow> request option \<times> world" where
  "createUploadMiddleware rule fieldName allowedMimeTypes req w =
     (case uploader rule fieldName allowedMimeTypes req of
        Inl err \<Rightarrow>
          (let message =
                 (if isMulterError err \<and> errorCode err = Some ''LIMIT_FILE_SIZE''
                  then ''File size exceeds '' @ numberToString MAX_FILE_SIZE_MB @ ''MB limit''
                  else errorMessage err)
           in (None, res_json 400 [(''message'', message)] w))
      | Inr f \<Rightarrow> (Some (req\<lparr>reqFile := f\<rparr>), w))"

definition uploadImage :: "size_rule \<Rightarrow> request \<Rightarrow> world \<Rightarrow> request option \<times> world" where
  "uploadImage rule = createUploadMiddleware rule ''image'' IMAGE_MIME_TYPES"

definition uploadDocument :: "size_rule \<Rightarrow> request \<Rightarrow> world \<Rightarrow> request option \<times> world" where
  "uploadDocument rule = createUploadMiddleware rule ''document'' DOCUMENT_MIME_TYPES"

definition uploadAudio :: "size_rule \<Rightarrow> request \<Rightarrow> world \<Rightarrow> request option \<times> world" where
  "uploadAudio rule = createUploadMiddleware rule ''audio'' AUDIO_MIME_TYPES"

section \<open>The route handlers\<close>

text \<open>
  Each handler body is a \<^verbatim>\<open>try\<close> block whose only raising statement is the collaborator
  call; the \<^verbatim>\<open>catch\<close> block logs the error and answers 500 with its message.
\<close>

definition generate_text :: "collaborator \<Rightarrow> request \<Rightarrow> world \<Rightarrow> world" where
  "generate_text ai req w =
     (let prompt = promptOf req
      in if \<not> isPromptValid prompt
         then res_json 400 [(''message'', ''prompt is required'')] w
         else case generateContent ai \<lparr>model = GEMINI_MODEL, contents = Bare prompt\<rparr> w of
                (Inr text, w') \<Rightarrow> res_json 200 [(''result'', text)] w'
              | (Inl message, w') \<Rightarrow>
                  res_json 500 [(''message'', message)]
                    (console_error ''Error generating text:'' message w'))"

definition generate_from_image :: "collaborator \<Rightarrow> request \<Rightarrow> world \<Rightarrow> world" where
  "generate_from_image ai req w =
     (let prompt = promptOf req
      in if \<not> isPromptValid prompt
         then res_json 400 [(''message'', ''prompt is required'')] w
         else case reqFile req of
                None \<Rightarrow> res_json 400 [(''message'', ''image file is required'')] w
              | Some f \<Rightarrow>
                  (let base64Image = toBase64 (buffer f);
                       mt = mimetype f
                   in case generateContent ai
                             \<lparr>model = GEMINI_MODEL,
                              contents = Parts [TextPart prompt, InlineData base64Image mt]\<rparr> w of
                        (Inr text, w') \<Rightarrow> res_json 200 [(''result'', text)] w'
                      | (Inl message, w') \<Rightarrow>
                          res_json 500 [(''message'', message)]
                            (console_error ''Error generating image:'' message w')))"

definition generate_from_document :: "collaborator \<Rightarrow> request \<Rightarrow> world \<Rightarrow> world" where
  "generate_from_document ai req w =
     (let prompt = promptOf req
      in if \<not> isPromptValid prompt
         then res_json 400 [(''message'', ''prompt is required'')] w
         else case reqFile req of
                None \<Rightarrow> res_json 400 [(''message'', ''document file is required'')] w
              | Some f \<Rightarrow>
                  (let base64Document = toBase64 (buffer f);
                       mt = mimetype f
                   in case generateContent ai
                             \<lparr>model = GEMINI_MODEL,
                              contents =
                                Parts [TextPart (nullish prompt
                                          (JString ''Please summarize the content of the document.'')),
                                       InlineData base64Document mt]\<rparr> w of
                        (Inr text, w') \<Rightarrow> res_json 200 [(''result'', text)] w'
                      | (Inl message, w') \<Rightarrow>
                          res_json 500 [(''message'', message)]
                            (console_error ''Error generating from document:'' message w')))"

definition generate_from_audio :: "collaborator \<Rightarrow> request \<Rightarrow> world \<Rightarrow> world" where
  "generate_from_audio ai req w =
     (let prompt = promptOf req
      in if \<not> isPromptValid prompt
         then res_json 400 [(''message'', ''prompt is required'')] w
         else case reqFile req of
                None \<Rightarrow> res_json 400 [(''message'', ''audio file is required'')] w
              | Some f \<Rightarrow>
                  (let base64Audio = toBase64 (buffer f);
                       mt = mimetype f
                   in case generateContent ai
                             \<lparr>model = GEMINI_MODEL,
                              contents =
                                Parts [TextPart (nullish prompt
                                          (JString ''Please transcribe the audio content.'')),
                                       InlineData base64Audio mt]\<rparr> w of
                        (Inr text, w') \<Rightarrow> res_json 200 [(''result'', text)] w'
                      | (Inl message, w') \<Rightarrow>
                          res_json 500 [(''message'', message)]
                            (console_error ''Error generating from audio:'' message w')))"

section \<open>The application\<close>

datatype route = GenerateText | GenerateFromImage | GenerateFromDocument | GenerateFromAudio

text \<open>A route registered with a middleware in front of its handler.\<close>

definition guarded ::
  "(request \<Rightarrow> world \<Rightarrow> request option \<times> world) \<Rightarrow> (request \<Rightarrow> world \<Rightarrow> world) \<Rightarrow>
   request \<Rightarrow> world \<Rightarrow> world" where
  "guarded mw handler req w =
     (case mw req w of (None, w') \<Rightarrow> w' | (Some req', w') \<Rightarrow> handler req' w')"

definition serve :: "size_rule \<Rightarrow> collaborator \<Rightarrow> route \<Rightarrow> request \<Rightarrow> world" where
  "serve rule ai r req =
     (case r of
        GenerateText \<Rightarrow> generate_text ai req start
      | GenerateFromImage \<Rightarrow> guarded (uploadImage rule) (generate_from_image ai) req start
      | GenerateFromDocument \<Rightarrow> guarded (uploadDocument rule) (generate_from_document ai) req start
      | GenerateFromAudio \<Rightarrow> guarded (uploadAudio rule) (generate_from_audio ai) req start)"

text \<open>The three attachment categories with their field name, allow-list, middleware and route.\<close>

datatype category = ImageFile | DocumentFile | AudioFile

fun fieldNameOf :: "category \<Rightarrow> string" where
  "fieldNameOf ImageFile = ''image''"
| "fieldNameOf DocumentFile = ''document''"
| "fieldNameOf AudioFile = ''audio''"

fun allowedTypes :: "category \<Rightarrow> string list" where
  "allowedTypes ImageFile = IMAGE_MIME_TYPES"
| "allowedTypes DocumentFile = DOCUMENT_MIME_TYPES"
| "allowedTypes AudioFile = AUDIO_MIME_TYPES"

fun upload :: "category \<Rightarrow> size_rule \<Rightarrow> request \<Rightarrow> world \<Rightarrow> request option \<times> world" where
  "upload ImageFile = uploadImage"
| "upload DocumentFile = uploadDocument"
| "upload AudioFile = uploadAudio"

fun routeOf :: "category \<Rightarrow> route" where
  "routeOf ImageFile = GenerateFromImage"
| "routeOf DocumentFile = GenerateFromDocument"
| "routeOf AudioFile = GenerateFromAudio"

section \<open>Notions used to state the properties\<close>

text \<open>The text segment of a payload: the bare prompt, or the leading text part.\<close>

fun textSegment :: "contents \<Rightarrow> jsval option" where
  "textSegment (Bare v) = Some v"
| "textSegment (Parts (TextPart v # ps)) = Some v"
| "textSegment (Parts ps) = None"

text \<open>
  A request passes the upload gate of a category when the middleware calls \<^verbatim>\<open>next\<close>; the
  request it passes on is returned.
\<close>

definition passesGate :: "category \<Rightarrow> size_rule \<Rightarrow> request \<Rightarrow> request option" where
  "passesGate c rule req = fst (upload c rule req start)"

text \<open>
  All gates and validations pass: the prompt is valid and, on an attachment route, the upload
  gate lets the request through with a file in \<^verbatim>\<open>req.file\<close>.
\<close>

fun categoryOf :: "route \<Rightarrow> category option" where
  "categoryOf GenerateText = None"
| "categoryOf GenerateFromImage = Some ImageFile"
| "categoryOf GenerateFromDocument = Some DocumentFile"
| "categoryOf GenerateFromAudio = Some AudioFile"

definition admitted :: "size_rule \<Rightarrow> route \<Rightarrow> request \<Rightarrow> bool" where
  "admitted rule r req =
     (isPromptValid (promptOf req) \<and>
      (case categoryOf r of
         None \<Rightarrow> True
       | Some c \<Rightarrow>
           (case passesGate c rule req of
              None \<Rightarrow> False
            | Some req' \<Rightarrow> reqFile req' \<noteq> None)))"

text \<open>A collaborator that answers every payload with the same text, for closed examples.\<close>

definition answering :: "string \<Rightarrow> collaborator" where
  "answering t r = Inr t"

definition failing :: "string \<Rightarrow> collaborator" where
  "failing m r = Inl m"

section \<open>Auxiliary facts\<close>

lemma five_rendered: "numberToString MAX_FILE_SIZE_MB = ''5''"
  by code_simp

lemma max_bytes: "MAX_FILE_SIZE_BYTES = 5242880"
  by (simp add: MAX_FILE_SIZE_BYTES_def MAX_FILE_SIZE_MB_def)

lemma join_image:
  "join '', '' IMAGE_MIME_TYPES = ''image/png, image/jpeg, image/jpg, image/webp''"
  by (simp add: IMAGE_MIME_TYPES_def)

lemma join_document:
  "join '', '' DOCUMENT_MIME_TYPES =
     ''application/pdf, application/msword, application/vnd.openxmlformats-officedocument.wordprocessingml.document, text/plain''"
  by (simp add: DOCUMENT_MIME_TYPES_def)

lemma join_audio:
  "join '', '' AUDIO_MIME_TYPES =
     ''audio/mpeg, audio/mp3, audio/wav, audio/x-wav, audio/webm, audio/ogg''"
  by (simp add: AUDIO_MIME_TYPES_def)

lemma trim_nonempty_iff: "trim s \<noteq> [] \<longleftrightarrow> (\<exists>c\<in>set s. \<not> isWhiteSpace c)"
proof
  assume "trim s \<noteq> []"
  then have "dropWhile isWhiteSpace s \<noteq> []"
    by (auto simp: trim_def simp del: dropWhile_eq_Nil_conv)
  then show "\<exists>c\<in>set s. \<not> isWhiteSpace c"
    by (simp add: dropWhile_eq_Nil_conv)
next
  assume "\<exists>c\<in>set s. \<not> isWhiteSpace c"
  then have ne: "dropWhile isWhiteSpace s \<noteq> []"
    by (simp add: dropWhile_eq_Nil_conv)
  then have "\<not> isWhiteSpace (hd (dropWhile isWhiteSpace s))"
    by (rule hd_dropWhile)
  moreover have "hd (dropWhile isWhiteSpace s) \<in> set (rev (dropWhile isWhiteSpace s))"
    using ne by simp
  ultimately have "dropWhile isWhiteSpace (rev (dropWhile isWhiteSpace s)) \<noteq> []"
    by (auto simp: dropWhile_eq_Nil_conv)
  then show "trim s \<noteq> []"
    by (simp add: trim_def)
qed

lemma isPromptValid_string: "isPromptValid v \<Longrightarrow> \<exists>s. v = JString s"
  by (cases v) (simp_all add: isPromptValid_def)

lemma promptOf_reqFile: "promptOf (req\<lparr>reqFile := f\<rparr>) = promptOf req"
  by (simp add: promptOf_def)

lemma fileFilter_cases:
  "fileFilter al f =
     (if toLowerCase (case mimetype f of None \<Rightarrow> [] | Some m \<Rightarrow> m) \<in> set al then Inr True
      else Inl (''Invalid file type. Allowed types: '' @ join '', '' al))"
  by (simp add: fileFilter_def toLowerCase_def split: option.splits)

lemma limitHit_above: "fileSize < n \<Longrightarrow> limitHit rule fileSize n"
  by (cases rule) (simp_all add: limitHit_def)

lemma limitHit_below: "n < fileSize \<Longrightarrow> \<not> limitHit rule fileSize n"
  by (cases rule) (simp_all add: limitHit_def)

lemmas upload_defs = uploadImage_def uploadDocument_def uploadAudio_def createUploadMiddleware_def

lemmas handler_defs = generate_text_def generate_from_image_def generate_from_document_def
  generate_from_audio_def

lemmas effect_defs = res_json_def console_error_def generateContent_def start_def

text \<open>The first file part decides the upload when it is larger than the ceiling.\<close>

lemma uploader_first_part:
  assumes "parts req = f # fs" and "fieldname f = fn"
    and "MAX_FILE_SIZE_BYTES < length (buffer f)"
  shows "uploader rule fn al req =
           (if toLowerCase (case mimetype f of None \<Rightarrow> [] | Some m \<Rightarrow> m) \<in> set al
            then Inl (MulterError ''LIMIT_FILE_SIZE'' ''File too large'')
            else Inl (PlainError (''Invalid file type. Allowed types: '' @ join '', '' al)))"
  using assms by (simp add: uploader_def fileFilter_cases limitHit_above)

lemma middleware_first_part:
  assumes "parts req = f # fs" and "fieldname f = fn"
    and "MAX_FILE_SIZE_BYTES < length (buffer f)"
  shows "createUploadMiddleware rule fn al req w =
           (None, res_json 400
              [(''message'',
                if toLowerCase (case mimetype f of None \<Rightarrow> [] | Some m \<Rightarrow> m) \<in> set al
                then ''File size exceeds 5MB limit''
                else ''Invalid file type. Allowed types: '' @ join '', '' al)] w)"
  by (simp add: createUploadMiddleware_def uploader_first_part [OF assms] five_rendered)

text \<open>
  At the boundary the two size rules of the upload library part: a file of exactly
  \<open>5 * 1024 * 1024\<close> bytes is stored under one and refused under the other.
\<close>

lemma boundary_TripsAbove:
  "uploader TripsAbove ''image'' IMAGE_MIME_TYPES
     \<lparr>body = None,
      parts = [\<lparr>fieldname = ''image'', mimetype = Some ''image/png'',
                buffer = replicate (5 * 1024 * 1024) 0\<rparr>],
      reqFile = None\<rparr> =
   Inr (Some \<lparr>fieldname = ''image'', mimetype = Some ''image/png'',
              buffer = replicate (5 * 1024 * 1024) 0\<rparr>)"
proof -
  have "toLowerCase ''image/png'' = ''image/png''"
    by code_simp
  then show ?thesis
    by (simp add: uploader_def fileFilter_cases IMAGE_MIME_TYPES_def limitHit_def max_bytes)
qed

lemma boundary_TripsAt:
  "uploader TripsAt ''image'' IMAGE_MIME_TYPES
     \<lparr>body = None,
      parts = [\<lparr>fieldname = ''image'', mimetype = Some ''image/png'',
                buffer = replicate (5 * 1024 * 1024) 0\<rparr>],
      reqFile = None\<rparr> =
   Inl (MulterError ''LIMIT_FILE_SIZE'' ''File too large'')"
proof -
  have "toLowerCase ''image/png'' = ''image/png''"
    by code_simp
  then show ?thesis
    by (simp add: uploader_def fileFilter_cases IMAGE_MIME_TYPES_def limitHit_def max_bytes)
qed

section \<open>The prompt check (C5)\<close>

text \<open>
  C5. \<open>isPromptValid\<close> holds exactly for the strings whose trimmed length is at least 1, that
  is, the strings with a character that is not white space. It fails on every value that is
  not a string, and on the empty string, a string of spaces, null and undefined.
\<close>

theorem isPromptValid_iff:
  "(isPromptValid v \<longleftrightarrow> (\<exists>s. v = JString s \<and> 1 \<le> length (trim s))) \<and>
   (isPromptValid v \<longleftrightarrow> (\<exists>s. v = JString s \<and> (\<exists>c\<in>set s. \<not> isWhiteSpace c))) \<and>
   (typeof v \<noteq> ''string'' \<longrightarrow> \<not> isPromptValid v) \<and>
   (v \<in> {JString [], JString ''   '', JNull, JUndefined} \<longrightarrow> \<not> isPromptValid v)"
proof (intro conjI)
  show "isPromptValid v \<longleftrightarrow> (\<exists>s. v = JString s \<and> 1 \<le> length (trim s))"
    by (cases v) (simp_all add: isPromptValid_def Suc_le_eq)
  show "isPromptValid v \<longleftrightarrow> (\<exists>s. v = JString s \<and> (\<exists>c\<in>set s. \<not> isWhiteSpace c))"
    by (cases v) (simp_all add: isPromptValid_def trim_nonempty_iff)
  show "typeof v \<noteq> ''string'' \<longrightarrow> \<not> isPromptValid v"
    by (simp add: isPromptValid_def)
  have "\<not> isPromptValid (JString ''   '')"
    by code_simp
  moreover have "\<not> isPromptValid (JString [])"
    by code_simp
  moreover have "\<not> isPromptValid JNull" and "\<not> isPromptValid JUndefined"
    by (simp_all add: isPromptValid_def)
  ultimately show "v \<in> {JString [], JString ''   '', JNull, JUndefined} \<longrightarrow> \<not> isPromptValid v"
    by auto
qed

theorem isPromptValid_iff_witness:
  "isPromptValid (JString ''  hi  '') \<and> \<not> isPromptValid (JNumber 3) \<and>
   \<not> isPromptValid (JString ''   '')"
proof -
  have a: "\<exists>c\<in>set ''  hi  ''. \<not> isWhiteSpace c"
    by code_simp
  have "isPromptValid (JString ''  hi  '')"
    using isPromptValid_iff [of "JString ''  hi  ''", THEN conjunct2, THEN conjunct1] a
    by blast
  moreover have "\<not> isPromptValid (JNumber 3)"
    using isPromptValid_iff [of "JNumber 3", THEN conjunct2, THEN conjunct2, THEN conjunct1]
    by simp
  moreover have "\<not> isPromptValid (JString ''   '')"
    using isPromptValid_iff [of "JString ''   ''", THEN conjunct2, THEN conjunct2, THEN conjunct2]
    by simp
  ultimately show ?thesis
    by simp
qed

section \<open>The file filter (C2)\<close>

text \<open>
  C2. For every attachment category and every declared content type, with an undefined type
  read as the empty string, the file filter accepts the file exactly when the lower-cased
  type is in the allow-list of the category; when it rejects, the error message is
  \<open>Invalid file type. Allowed types: \<close> followed by the allow-list joined with comma and space.
\<close>

theorem fileFilter_accepts_iff_allowed:
  "(fileFilter (allowedTypes c) f = Inr True \<longleftrightarrow>
      toLowerCase (case mimetype f of None \<Rightarrow> [] | Some m \<Rightarrow> m) \<in> set (allowedTypes c)) \<and>
   (fileFilter (allowedTypes c) f \<noteq> Inr True \<longrightarrow>
      fileFilter (allowedTypes c) f =
        Inl (''Invalid file type. Allowed types: '' @
             (case c of
                ImageFile \<Rightarrow> ''image/png, image/jpeg, image/jpg, image/webp''
              | DocumentFile \<Rightarrow>
                  ''application/pdf, application/msword, application/vnd.openxmlformats-officedocument.wordprocessingml.document, text/plain''
              | AudioFile \<Rightarrow>
                  ''audio/mpeg, audio/mp3, audio/wav, audio/x-wav, audio/webm, audio/ogg'')))"
proof (cases c)
  case ImageFile
  then show ?thesis
    unfolding fileFilter_cases by (simp only: allowedTypes.simps join_image category.case) simp
next
  case DocumentFile
  then show ?thesis
    unfolding fileFilter_cases by (simp only: allowedTypes.simps join_document category.case) simp
next
  case AudioFile
  then show ?thesis
    unfolding fileFilter_cases by (simp only: allowedTypes.simps join_audio category.case) simp
qed

theorem fileFilter_accepts_iff_allowed_witness:
  "fileFilter (allowedTypes ImageFile)
     \<lparr>fieldname = ''image'', mimetype = Some ''IMAGE/Png'', buffer = []\<rparr> = Inr True \<and>
   fileFilter (allowedTypes AudioFile)
     \<lparr>fieldname = ''audio'', mimetype = None, buffer = []\<rparr> =
   Inl ''Invalid file type. Allowed types: audio/mpeg, audio/mp3, audio/wav, audio/x-wav, audio/webm, audio/ogg''"
proof -
  let ?f = "\<lparr>fieldname = ''image'', mimetype = Some ''IMAGE/Png'', buffer = []\<rparr>"
  let ?g = "\<lparr>fieldname = ''audio'', mimetype = None, buffer = []\<rparr>"
  have lower: "toLowerCase ''IMAGE/Png'' = ''image/png''"
    by code_simp
  have a: "toLowerCase (case mimetype ?f of None \<Rightarrow> [] | Some m \<Rightarrow> m) \<in> set (allowedTypes ImageFile)"
    by (simp add: lower IMAGE_MIME_TYPES_def)
  have b: "toLowerCase (case mimetype ?g of None \<Rightarrow> [] | Some m \<Rightarrow> m) \<notin> set (allowedTypes AudioFile)"
    by (simp add: toLowerCase_def AUDIO_MIME_TYPES_def)
  have "fileFilter (allowedTypes ImageFile) ?f = Inr True"
    using fileFilter_accepts_iff_allowed [of ImageFile ?f, THEN conjunct1] a by blast
  moreover have "fileFilter (allowedTypes AudioFile) ?g \<noteq> Inr True"
    using fileFilter_accepts_iff_allowed [of AudioFile ?g, THEN conjunct1] b by blast
  then have "fileFilter (allowedTypes AudioFile) ?g =
      Inl ''Invalid file type. Allowed types: audio/mpeg, audio/mp3, audio/wav, audio/x-wav, audio/webm, audio/ogg''"
    using fileFilter_accepts_iff_allowed [of AudioFile ?g, THEN conjunct2] by simp
  ultimately show ?thesis
    by (rule conjI)
qed

section \<open>The size ceiling (C3)\<close>

text \<open>
  C3, as the code has it. On an attachment route, when the first file part is sent under the
  route's field and is larger than \<open>5 * 1024 * 1024\<close> bytes, the request is answered by the
  upload middleware alone, with status 400, and the handler body does not run: nothing is sent
  to the collaborator and nothing is logged. The message is \<open>File size exceeds 5MB limit\<close>
  when the lower-cased declared type is in the allow-list of the route; otherwise the type
  check, which comes first, has already refused the file and the message is the one of the
  file filter. This holds under either size rule of the upload library.
\<close>

theorem oversize_rejected_after_type_check:
  assumes "parts req = f # fs" and "fieldname f = fieldNameOf c"
    and "5 * 1024 * 1024 < length (buffer f)"
  shows "serve rule ai (routeOf c) req =
           \<lparr>sent = [\<lparr>status = 400,
                     json = [(''message'',
                              if toLowerCase (case mimetype f of None \<Rightarrow> [] | Some m \<Rightarrow> m)
                                   \<in> set (allowedTypes c)
                              then ''File size exceeds 5MB limit''
                              else ''Invalid file type. Allowed types: '' @
                                   join '', '' (allowedTypes c))]\<rparr>],
            calls = [], logged = []\<rparr>"
proof -
  have big: "MAX_FILE_SIZE_BYTES < length (buffer f)"
    using assms(3) by (simp add: max_bytes)
  note mw = middleware_first_part [OF assms(1) _ big]
  show ?thesis
  proof (cases c)
    case ImageFile
    then have "fieldname f = ''image''"
      using assms(2) by simp
    from mw [OF this] ImageFile show ?thesis
      by (simp add: serve_def guarded_def uploadImage_def effect_defs)
  next
    case DocumentFile
    then have "fieldname f = ''document''"
      using assms(2) by simp
    from mw [OF this] DocumentFile show ?thesis
      by (simp add: serve_def guarded_def uploadDocument_def effect_defs)
  next
    case AudioFile
    then have "fieldname f = ''audio''"
      using assms(2) by simp
    from mw [OF this] AudioFile show ?thesis
      by (simp add: serve_def guarded_def uploadAudio_def effect_defs)
  qed
qed

theorem oversize_rejected_after_type_check_witness:
  "serve TripsAt (answering ''ok'') GenerateFromImage
     \<lparr>body = None,
      parts = [\<lparr>fieldname = ''image'', mimetype = Some ''image/PNG'',
                buffer = replicate 5242881 0\<rparr>],
      reqFile = None\<rparr> =
   \<lparr>sent = [\<lparr>status = 400, json = [(''message'', ''File size exceeds 5MB limit'')]\<rparr>],
    calls = [], logged = []\<rparr>"
proof -
  have lower: "toLowerCase ''image/PNG'' = ''image/png''"
    by code_simp
  show ?thesis
    using oversize_rejected_after_type_check [of
        "\<lparr>body = None,
          parts = [\<lparr>fieldname = ''image'', mimetype = Some ''image/PNG'',
                    buffer = replicate 5242881 0\<rparr>],
          reqFile = None\<rparr>"
        "\<lparr>fieldname = ''image'', mimetype = Some ''image/PNG'', buffer = replicate 5242881 0\<rparr>"
        "[]" ImageFile TripsAt "answering ''ok''"]
    by (simp add: lower IMAGE_MIME_TYPES_def)
qed

text \<open>
  The claim as the specification words it, the size message whatever the declared type, fails
  on an image upload of 5242881 bytes declared as \<open>text/html\<close>: the answer carries the message
  of the file filter.
\<close>

theorem oversize_wrong_type_counterexample:
  "5 * 1024 * 1024 <
     length (buffer \<lparr>fieldname = ''image'', mimetype = Some ''text/html'',
                     buffer = replicate 5242881 0\<rparr>) \<and>
   sent (serve TripsAbove (answering ''ok'') GenerateFromImage
     \<lparr>body = None,
      parts = [\<lparr>fieldname = ''image'', mimetype = Some ''text/html'',
                buffer = replicate 5242881 0\<rparr>],
      reqFile = None\<rparr>) =
   [\<lparr>status = 400,
     json = [(''message'',
              ''Invalid file type. Allowed types: image/png, image/jpeg, image/jpg, image/webp'')]\<rparr>] \<and>
   sent (serve TripsAbove (answering ''ok'') GenerateFromImage
     \<lparr>body = None,
      parts = [\<lparr>fieldname = ''image'', mimetype = Some ''text/html'',
                buffer = replicate 5242881 0\<rparr>],
      reqFile = None\<rparr>) \<noteq>
   [\<lparr>status = 400, json = [(''message'', ''File size exceeds 5MB limit'')]\<rparr>]"
proof -
  have lower: "toLowerCase ''text/html'' = ''text/html''"
    by code_simp
  show ?thesis
    by (simp add: serve_def guarded_def uploadImage_def createUploadMiddleware_def uploader_def
        fileFilter_cases lower IMAGE_MIME_TYPES_def effect_defs)
qed

section \<open>Missing prompt (C1, C4)\<close>

text \<open>
  C1. The specification lets the document and audio routes fall back to a default prompt when
  the prompt field is absent. The handlers hold that fallback in the payload expression, yet
  their first statement refuses an invalid prompt, and an absent one is invalid: a PDF sent to
  the document route, or an MP3 sent to the audio route, with no prompt field is answered with
  400 \<open>prompt is required\<close>, and the collaborator is never called.
\<close>

theorem document_absent_prompt_400:
  "serve rule ai GenerateFromDocument
     \<lparr>body = None,
      parts = [\<lparr>fieldname = ''document'', mimetype = Some ''application/pdf'',
                buffer = [37, 80, 68, 70]\<rparr>],
      reqFile = None\<rparr> =
   \<lparr>sent = [\<lparr>status = 400, json = [(''message'', ''prompt is required'')]\<rparr>],
    calls = [], logged = []\<rparr> \<and>
   serve rule ai GenerateFromAudio
     \<lparr>body = None,
      parts = [\<lparr>fieldname = ''audio'', mimetype = Some ''audio/mpeg'', buffer = [73, 68, 51]\<rparr>],
      reqFile = None\<rparr> =
   \<lparr>sent = [\<lparr>status = 400, json = [(''message'', ''prompt is required'')]\<rparr>],
    calls = [], logged = []\<rparr>"
proof -
  have a: "toLowerCase ''application/pdf'' = ''application/pdf''"
    by code_simp
  have b: "toLowerCase ''audio/mpeg'' = ''audio/mpeg''"
    by code_simp
  have "serve rule ai GenerateFromDocument
     \<lparr>body = None,
      parts = [\<lparr>fieldname = ''document'', mimetype = Some ''application/pdf'',
                buffer = [37, 80, 68, 70]\<rparr>],
      reqFile = None\<rparr> =
   \<lparr>sent = [\<lparr>status = 400, json = [(''message'', ''prompt is required'')]\<rparr>],
    calls = [], logged = []\<rparr>"
    by (simp add: serve_def guarded_def uploadDocument_def createUploadMiddleware_def
        uploader_def fileFilter_cases a DOCUMENT_MIME_TYPES_def limitHit_below max_bytes effect_defs
        generate_from_document_def promptOf_def isPromptValid_def)
  moreover have "serve rule ai GenerateFromAudio
     \<lparr>body = None,
      parts = [\<lparr>fieldname = ''audio'', mimetype = Some ''audio/mpeg'', buffer = [73, 68, 51]\<rparr>],
      reqFile = None\<rparr> =
   \<lparr>sent = [\<lparr>status = 400, json = [(''message'', ''prompt is required'')]\<rparr>],
    calls = [], logged = []\<rparr>"
    by (simp add: serve_def guarded_def uploadAudio_def createUploadMiddleware_def
        uploader_def fileFilter_cases b AUDIO_MIME_TYPES_def limitHit_below max_bytes effect_defs
        generate_from_audio_def promptOf_def isPromptValid_def)
  ultimately show ?thesis
    by (rule conjI)
qed

text \<open>
  C4. On the image route, a request that passes the upload gate and has no prompt field is
  answered with 400 \<open>prompt is required\<close>, whether or not a file was stored: the prompt is
  checked before the presence of the file. The collaborator is not called.
\<close>

theorem image_prompt_checked_first:
  assumes "passesGate ImageFile rule req = Some req'" and "promptOf req = JUndefined"
  shows "serve rule ai GenerateFromImage req =
           \<lparr>sent = [\<lparr>status = 400, json = [(''message'', ''prompt is required'')]\<rparr>],
            calls = [], logged = []\<rparr>"
  using assms
  by (auto simp: passesGate_def serve_def guarded_def upload_defs generate_from_image_def
      effect_defs isPromptValid_def promptOf_reqFile Let_def split: sum.splits)

theorem image_prompt_checked_first_witness:
  "passesGate ImageFile TripsAbove
     \<lparr>body = None,
      parts = [\<lparr>fieldname = ''image'', mimetype = Some ''image/png'', buffer = [137, 80, 78, 71]\<rparr>],
      reqFile = None\<rparr> =
   Some \<lparr>body = None,
         parts = [\<lparr>fieldname = ''image'', mimetype = Some ''image/png'', buffer = [137, 80, 78, 71]\<rparr>],
         reqFile = Some \<lparr>fieldname = ''image'', mimetype = Some ''image/png'',
                          buffer = [137, 80, 78, 71]\<rparr>\<rparr> \<and>
   serve TripsAbove (answering ''ok'') GenerateFromImage
     \<lparr>body = None,
      parts = [\<lparr>fieldname = ''image'', mimetype = Some ''image/png'', buffer = [137, 80, 78, 71]\<rparr>],
      reqFile = None\<rparr> =
   \<lparr>sent = [\<lparr>status = 400, json = [(''message'', ''prompt is required'')]\<rparr>],
    calls = [], logged = []\<rparr>"
proof -
  let ?f = "\<lparr>fieldname = ''image'', mimetype = Some ''image/png'', buffer = [137, 80, 78, 71]\<rparr>"
  let ?req = "\<lparr>body = None, parts = [?f], reqFile = None\<rparr>"
  have lower: "toLowerCase ''image/png'' = ''image/png''"
    by code_simp
  have gate: "passesGate ImageFile TripsAbove ?req = Some \<lparr>body = None, parts = [?f], reqFile = Some ?f\<rparr>"
    by (simp add: passesGate_def upload_defs uploader_def fileFilter_cases lower
        IMAGE_MIME_TYPES_def limitHit_def max_bytes)
  have absent: "promptOf ?req = JUndefined"
    by (simp add: promptOf_def)
  from gate image_prompt_checked_first [OF gate absent, of "answering ''ok''"]
  show ?thesis
    by (rule conjI)
qed

section \<open>Missing file (C6)\<close>

text \<open>
  C6. On each attachment route, a request that passes the upload gate with no file stored and
  carries a valid prompt is answered with 400 and the message \<open>image file is required\<close>,
  \<open>document file is required\<close> or \<open>audio file is required\<close> of its route; the collaborator
  is not called.
\<close>

theorem missing_file_400:
  assumes "passesGate c rule req = Some req'" and "reqFile req' = None"
    and "isPromptValid (promptOf req)"
  shows "serve rule ai (routeOf c) req =
           \<lparr>sent = [\<lparr>status = 400,
                     json = [(''message'',
                              (case c of
                                 ImageFile \<Rightarrow> ''image file is required''
                               | DocumentFile \<Rightarrow> ''document file is required''
                               | AudioFile \<Rightarrow> ''audio file is required''))]\<rparr>],
            calls = [], logged = []\<rparr>"
  using assms
  by (cases c)
    (auto simp: passesGate_def serve_def guarded_def upload_defs handler_defs
      effect_defs promptOf_reqFile Let_def split: sum.splits)

theorem missing_file_400_witness:
  "serve TripsAbove (answering ''ok'') GenerateFromDocument
     \<lparr>body = Some [''prompt'' \<mapsto> JString ''hi''], parts = [], reqFile = None\<rparr> =
   \<lparr>sent = [\<lparr>status = 400, json = [(''message'', ''document file is required'')]\<rparr>],
    calls = [], logged = []\<rparr>"
proof -
  let ?req = "\<lparr>body = Some [''prompt'' \<mapsto> JString ''hi''], parts = [], reqFile = None\<rparr>"
  have gate: "passesGate DocumentFile TripsAbove ?req = Some (?req\<lparr>reqFile := None\<rparr>)"
    by (simp add: passesGate_def upload_defs uploader_def)
  have nofile: "reqFile (?req\<lparr>reqFile := None\<rparr>) = None"
    by simp
  have "isPromptValid (JString ''hi'')"
    by code_simp
  then have valid: "isPromptValid (promptOf ?req)"
    by (simp add: promptOf_def)
  show ?thesis
    using missing_file_400 [OF gate nofile valid, of "answering ''ok''"] by simp
qed

section \<open>Success and upstream failure (C7, C8)\<close>

text \<open>
  C7. When the prompt is valid and, on an attachment route, the upload gate has stored a file,
  the collaborator is called exactly once, and if it answers that call with a text \<open>t\<close> the
  response is 200 with the body \<open>{result: t}\<close>, the text unchanged.
\<close>

theorem admitted_success_200:
  assumes "admitted rule r req"
  shows "\<exists>call. calls (serve rule ai r req) = [call] \<and>
           (\<forall>t. ai call = Inr t \<longrightarrow>
              sent (serve rule ai r req) = [\<lparr>status = 200, json = [(''result'', t)]\<rparr>])"
  using assms
  by (cases r)
    (auto simp: admitted_def passesGate_def serve_def guarded_def upload_defs handler_defs
      effect_defs promptOf_reqFile Let_def split: sum.splits option.splits)

theorem admitted_success_200_witness:
  "admitted TripsAbove GenerateText
     \<lparr>body = Some [''prompt'' \<mapsto> JString ''hello''], parts = [], reqFile = None\<rparr> \<and>
   sent (serve TripsAbove (answering ''hi there'') GenerateText
     \<lparr>body = Some [''prompt'' \<mapsto> JString ''hello''], parts = [], reqFile = None\<rparr>) =
   [\<lparr>status = 200, json = [(''result'', ''hi there'')]\<rparr>] \<and>
   admitted TripsAt GenerateFromImage
     \<lparr>body = Some [''prompt'' \<mapsto> JString ''hello''],
      parts = [\<lparr>fieldname = ''image'', mimetype = Some ''image/png'', buffer = [137, 80, 78, 71]\<rparr>],
      reqFile = None\<rparr> \<and>
   sent (serve TripsAt (answering ''a cat'') GenerateFromImage
     \<lparr>body = Some [''prompt'' \<mapsto> JString ''hello''],
      parts = [\<lparr>fieldname = ''image'', mimetype = Some ''image/png'', buffer = [137, 80, 78, 71]\<rparr>],
      reqFile = None\<rparr>) =
   [\<lparr>status = 200, json = [(''result'', ''a cat'')]\<rparr>]"
proof -
  let ?req = "\<lparr>body = Some [''prompt'' \<mapsto> JString ''hello''], parts = [], reqFile = None\<rparr>"
  let ?f = "\<lparr>fieldname = ''image'', mimetype = Some ''image/png'', buffer = [137, 80, 78, 71]\<rparr>"
  let ?img = "\<lparr>body = Some [''prompt'' \<mapsto> JString ''hello''], parts = [?f], reqFile = None\<rparr>"
  have valid: "isPromptValid (JString ''hello'')"
    by code_simp
  have lower: "toLowerCase ''image/png'' = ''image/png''"
    by code_simp
  have a: "admitted TripsAbove GenerateText ?req"
    using valid by (simp add: admitted_def promptOf_def)
  have b: "admitted TripsAt GenerateFromImage ?img"
    using valid
    by (simp add: admitted_def promptOf_def passesGate_def upload_defs uploader_def
        fileFilter_cases lower IMAGE_MIME_TYPES_def limitHit_below max_bytes)
  have "sent (serve TripsAbove (answering ''hi there'') GenerateText ?req) =
          [\<lparr>status = 200, json = [(''result'', ''hi there'')]\<rparr>]"
    using admitted_success_200 [OF a, of "answering ''hi there''"]
    by (auto simp: answering_def)
  moreover have "sent (serve TripsAt (answering ''a cat'') GenerateFromImage ?img) =
          [\<lparr>status = 200, json = [(''result'', ''a cat'')]\<rparr>]"
    using admitted_success_200 [OF b, of "answering ''a cat''"]
    by (auto simp: answering_def)
  ultimately show ?thesis
    using a b by simp
qed

text \<open>
  C8. Every request gets exactly one response and at most one call of the collaborator; when
  the collaborator is called and raises an error with message \<open>m\<close>, that response is 500 with
  the body \<open>{message: m}\<close>, the message unchanged, and the call is not repeated.
\<close>

theorem collaborator_failure_500:
  "length (sent (serve rule ai r req)) = 1 \<and>
   length (calls (serve rule ai r req)) \<le> 1 \<and>
   (\<forall>call m. call \<in> set (calls (serve rule ai r req)) \<and> ai call = Inl m \<longrightarrow>
      sent (serve rule ai r req) = [\<lparr>status = 500, json = [(''message'', m)]\<rparr>])"
  by (cases r)
    (auto simp: serve_def guarded_def upload_defs handler_defs
      effect_defs promptOf_reqFile Let_def split: sum.splits option.splits)

theorem collaborator_failure_500_witness:
  "calls (serve TripsAbove (failing ''quota exceeded'') GenerateFromAudio
     \<lparr>body = Some [''prompt'' \<mapsto> JString ''hello''],
      parts = [\<lparr>fieldname = ''audio'', mimetype = Some ''audio/mpeg'', buffer = [73, 68, 51]\<rparr>],
      reqFile = None\<rparr>) =
   [\<lparr>model = ''gemini-2.5-flash'',
     contents = Parts [TextPart (JString ''hello''), InlineData ''SUQz'' (Some ''audio/mpeg'')]\<rparr>] \<and>
   sent (serve TripsAbove (failing ''quota exceeded'') GenerateFromAudio
     \<lparr>body = Some [''prompt'' \<mapsto> JString ''hello''],
      parts = [\<lparr>fieldname = ''audio'', mimetype = Some ''audio/mpeg'', buffer = [73, 68, 51]\<rparr>],
      reqFile = None\<rparr>) =
   [\<lparr>status = 500, json = [(''message'', ''quota exceeded'')]\<rparr>]"
proof -
  let ?f = "\<lparr>fieldname = ''audio'', mimetype = Some ''audio/mpeg'', buffer = [73, 68, 51]\<rparr>"
  let ?req = "\<lparr>body = Some [''prompt'' \<mapsto> JString ''hello''], parts = [?f], reqFile = None\<rparr>"
  let ?call = "\<lparr>model = ''gemini-2.5-flash'',
     contents = Parts [TextPart (JString ''hello''), InlineData ''SUQz'' (Some ''audio/mpeg'')]\<rparr>"
  have valid: "isPromptValid (JString ''hello'')"
    by code_simp
  have lower: "toLowerCase ''audio/mpeg'' = ''audio/mpeg''"
    by code_simp
  have b64: "toBase64 [73, 68, 51] = ''SUQz''"
    by (simp add: base64Char_def base64Alphabet_def)
  have c: "calls (serve TripsAbove (failing ''quota exceeded'') GenerateFromAudio ?req) = [?call]"
    using valid
    by (simp add: serve_def guarded_def upload_defs uploader_def fileFilter_cases lower
        AUDIO_MIME_TYPES_def limitHit_below max_bytes generate_from_audio_def promptOf_def
        effect_defs failing_def b64 GEMINI_MODEL_def del: toBase64.simps)
  then have m: "?call \<in> set (calls (serve TripsAbove (failing ''quota exceeded'') GenerateFromAudio ?req))
      \<and> failing ''quota exceeded'' ?call = Inl ''quota exceeded''"
    by (simp add: failing_def)
  from collaborator_failure_500 [of TripsAbove "failing ''quota exceeded''" GenerateFromAudio ?req,
      THEN conjunct2, THEN conjunct2, rule_format, OF m] c
  show ?thesis
    by simp
qed

section \<open>The prompt reaches the collaborator unchanged (C9)\<close>

text \<open>
  C9. Whenever the collaborator is called, the caller's prompt is a string and the text segment
  of the payload is that very string, white space at both ends included.
\<close>

theorem prompt_forwarded_verbatim:
  assumes "call \<in> set (calls (serve rule ai r req))"
  shows "\<exists>s. promptOf req = JString s \<and> textSegment (contents call) = Some (JString s)"
  using assms
  by (cases r)
    (auto simp: serve_def guarded_def upload_defs handler_defs effect_defs promptOf_reqFile
      Let_def dest: isPromptValid_string split: sum.splits option.splits if_splits)

theorem prompt_forwarded_verbatim_witness:
  "calls (serve TripsAbove (answering ''ok'') GenerateText
     \<lparr>body = Some [''prompt'' \<mapsto> JString ''  hi  ''], parts = [], reqFile = None\<rparr>) =
   [\<lparr>model = ''gemini-2.5-flash'', contents = Bare (JString ''  hi  '')\<rparr>] \<and>
   textSegment (contents \<lparr>model = ''gemini-2.5-flash'', contents = Bare (JString ''  hi  '')\<rparr>) =
   Some (JString ''  hi  '')"
proof -
  let ?req = "\<lparr>body = Some [''prompt'' \<mapsto> JString ''  hi  ''], parts = [], reqFile = None\<rparr>"
  let ?call = "\<lparr>model = ''gemini-2.5-flash'', contents = Bare (JString ''  hi  '')\<rparr>"
  have valid: "isPromptValid (JString ''  hi  '')"
    by code_simp
  have p: "promptOf ?req = JString ''  hi  ''"
    by (simp add: promptOf_def)
  have c: "calls (serve TripsAbove (answering ''ok'') GenerateText ?req) = [?call]"
    using valid
    by (simp add: serve_def generate_text_def promptOf_def effect_defs answering_def GEMINI_MODEL_def)
  then have "?call \<in> set (calls (serve TripsAbove (answering ''ok'') GenerateText ?req))"
    by simp
  from prompt_forwarded_verbatim [OF this] p
  have "textSegment (contents ?call) = Some (JString ''  hi  '')"
    by auto
  with c show ?thesis
    by (rule conjI)
qed

end
